theory Spec2Isabelle
  imports Main "HOL-Library.Multiset"
begin

section \<open>Strings and the library calls the programs make\<close>

text \<open>
  A Go string is a sequence of bytes, modelled as \<open>string\<close>. \<open>strings.HasPrefix\<close>,
  \<open>strings.HasSuffix\<close> and \<open>strings.Split\<close> (on a one-byte separator) compare bytes.
\<close>

definition HasPrefix :: "string \<Rightarrow> string \<Rightarrow> bool" where
  "HasPrefix s p = (take (length p) s = p)"

definition HasSuffix :: "string \<Rightarrow> string \<Rightarrow> bool" where
  "HasSuffix s p = (length p \<le> length s \<and> drop (length s - length p) s = p)"

fun Split :: "string \<Rightarrow> char \<Rightarrow> string list" where
  "Split [] sep = [[]]"
| "Split (c # cs) sep =
     (if c = sep then [] # Split cs sep
      else (case Split cs sep of [] \<Rightarrow> [[c]] | p # ps \<Rightarrow> (c # p) # ps))"

text \<open>
  \<open>strings.TrimSpace\<close> removes leading and trailing Unicode white space. The programs
  take it from the library, so the model takes it as a parameter \<open>trim\<close>; every theorem
  below holds for any such function. \<open>TrimSpace_ascii\<close> is what the library function
  does on input that is ASCII only (tab, line feed, vertical tab, form feed, carriage
  return and space are removed at both ends); it instantiates the parameter in examples.
\<close>

definition asciiSpace :: "char \<Rightarrow> bool" where
  "asciiSpace c = (c \<in> set [CHR 0x09, CHR 0x0A, CHR 0x0B, CHR 0x0C, CHR 0x0D, CHR '' ''])"

definition TrimSpace_ascii :: "string \<Rightarrow> string" where
  "TrimSpace_ascii s = rev (dropWhile asciiSpace (rev (dropWhile asciiSpace s)))"

subsection \<open>strconv.Atoi\<close>

definition isDigit :: "char \<Rightarrow> bool" where
  "isDigit c = (48 \<le> (of_char c :: int) \<and> (of_char c :: int) \<le> 57)"

definition digitVal :: "char \<Rightarrow> int" where
  "digitVal c = of_char c - 48"

fun parseDigits :: "string \<Rightarrow> int \<Rightarrow> int option" where
  "parseDigits [] acc = Some acc"
| "parseDigits (c # cs) acc =
     (if isDigit c then parseDigits cs (10 * acc + digitVal c) else None)"

text \<open>
  \<open>strconv.Atoi\<close>: an optional sign, then one or more decimal digits, the value within
  the 64-bit range of \<open>int\<close>; anything else is an error (\<open>None\<close>).
\<close>

definition Atoi :: "string \<Rightarrow> int option" where
  "Atoi s =
     (case s of
        [] \<Rightarrow> None
      | c # cs \<Rightarrow>
          (let neg = (c = CHR ''-'');
               ds = (if c = CHR ''-'' \<or> c = CHR ''+'' then cs else s)
           in if ds = [] then None
              else (case parseDigits ds 0 of
                      None \<Rightarrow> None
                    | Some n \<Rightarrow>
                        if neg then (if n \<le> 9223372036854775808 then Some (- n) else None)
                        else (if n < 9223372036854775808 then Some n else None))))"

section \<open>checkURL\<close>

text \<open>
  \<open>http.Head\<close> either fails at the transport level (\<open>err != nil\<close>) or returns a
  response with a status code.
\<close>

datatype response = TransportError | Status int

text \<open>The two lines \<open>[ERROR] url: err\<close> and \<open>[CHECK] url: code\<close> of verbose mode.\<close>

datatype logline = LogError string | LogCheck string int

text \<open>
  liveurls.go, checkURL, lines 17 to 20 (the same lines open checkURL in every variant):
  the parameter \<open>url\<close> is reassigned when it has neither prefix.
\<close>

definition addScheme :: "string \<Rightarrow> string" where
  "addScheme url =
     (if \<not> HasPrefix url ''http://'' \<and> \<not> HasPrefix url ''https://''
      then ''http://'' @ url else url)"

text \<open>
  What one call of checkURL does, as a value: the URL handed to \<open>http.Head\<close>, the lines
  printed, and the value sent on \<open>outputChan\<close> (if any). \<open>head\<close> is the network.
\<close>

record 'a checked =
  probed :: string
  printed :: "logline list"
  sent :: "'a option"

definition checkURL :: "bool \<Rightarrow> (string \<Rightarrow> response) \<Rightarrow> string \<Rightarrow> string checked" where
  "checkURL verbose head url0 =
     (let url = addScheme url0 in
      case head url of
        TransportError \<Rightarrow>
          \<lparr>probed = url, printed = (if verbose then [LogError url] else []), sent = None\<rparr>
      | Status code \<Rightarrow>
          \<lparr>probed = url, printed = (if verbose then [LogCheck url code] else []),
           sent = (if code = 200 then Some url else None)\<rparr>)"

text \<open>The classifying variant (part_000): every response is sent, with its status code.\<close>

record statusResult =
  url :: string
  statusCode :: int

definition checkURL_status ::
  "bool \<Rightarrow> (string \<Rightarrow> response) \<Rightarrow> string \<Rightarrow> statusResult checked" where
  "checkURL_status verbose head url0 =
     (let url = addScheme url0 in
      case head url of
        TransportError \<Rightarrow>
          \<lparr>probed = url, printed = (if verbose then [LogError url] else []), sent = None\<rparr>
      | Status code \<Rightarrow>
          \<lparr>probed = url, printed = (if verbose then [LogCheck url code] else []),
           sent = Some \<lparr>url = url, statusCode = code\<rparr>\<rparr>)"

section \<open>Reading the endpoint list\<close>

text \<open>
  main, the scanner loop (liveurls.go lines 83 to 89, and the same loop on standard
  input): \<open>lines\<close> are the scanner's tokens, \<open>urls\<close> the slice appended to.
\<close>

fun scanLoop :: "(string \<Rightarrow> string) \<Rightarrow> string list \<Rightarrow> string list \<Rightarrow> string list" where
  "scanLoop trim [] urls = urls"
| "scanLoop trim (line # rest) urls =
     (let url = trim line in
      if url \<noteq> [] then scanLoop trim rest (urls @ [url]) else scanLoop trim rest urls)"

definition readURLs :: "(string \<Rightarrow> string) \<Rightarrow> string list \<Rightarrow> string list" where
  "readURLs trim lines = scanLoop trim lines []"

section \<open>The status-class filter (part_000)\<close>

text \<open>
  A Go \<open>map[int]bool\<close> is a partial map; reading a missing key gives \<open>false\<close>.
  parseStatusRanges returns \<open>nil\<close> (\<open>None\<close>) for the empty string and a map otherwise.
\<close>

definition lookupBool :: "(int \<rightharpoonup> bool) \<Rightarrow> int \<Rightarrow> bool" where
  "lookupBool m k = (case m k of None \<Rightarrow> False | Some b \<Rightarrow> b)"

text \<open>The inner loop, lines 103 to 105: \<open>ranges[base*100+i] = true\<close> for \<open>i\<close> below \<open>n\<close>.\<close>

primrec fillRange :: "int \<Rightarrow> nat \<Rightarrow> (int \<rightharpoonup> bool) \<Rightarrow> (int \<rightharpoonup> bool)" where
  "fillRange base 0 ranges = ranges"
| "fillRange base (Suc n) ranges = (fillRange base n ranges)(base * 100 + int n \<mapsto> True)"

text \<open>The loop over the parts, lines 94 to 106; \<open>part[:1]\<close> is \<open>take 1 part\<close>.\<close>

fun parseParts :: "(string \<Rightarrow> string) \<Rightarrow> string list \<Rightarrow> (int \<rightharpoonup> bool) \<Rightarrow> (int \<rightharpoonup> bool)" where
  "parseParts trim [] ranges = ranges"
| "parseParts trim (part0 # parts) ranges =
     (let part = trim part0 in
      if length part < 3 \<or> \<not> HasSuffix part ''xx'' then parseParts trim parts ranges
      else (case Atoi (take 1 part) of
              None \<Rightarrow> parseParts trim parts ranges
            | Some base \<Rightarrow> parseParts trim parts (fillRange base 100 ranges)))"

definition parseStatusRanges :: "(string \<Rightarrow> string) \<Rightarrow> string \<Rightarrow> (int \<rightharpoonup> bool) option" where
  "parseStatusRanges trim only =
     (if only = [] then None
      else Some (parseParts trim (Split only (CHR '','')) Map.empty))"


section \<open>Writing the report\<close>

text \<open>
  The file system is a map from file names to contents. \<open>os.Create\<close> truncates an
  existing file; whether it succeeds is the environment's (\<open>creatable\<close>). A failing
  write or flush on an open file is not modelled.
\<close>

type_synonym files = "string \<rightharpoonup> string"

datatype saveError = CreateError string

text \<open>saveURLs, lines 78 to 83: the loop writes each URL and a line feed.\<close>

primrec writeLoop :: "string list \<Rightarrow> string \<Rightarrow> string" where
  "writeLoop [] buf = buf"
| "writeLoop (u # us) buf = writeLoop us (buf @ u @ [CHR 0x0A])"

definition saveURLs :: "(string \<Rightarrow> bool) \<Rightarrow> files \<Rightarrow> string \<Rightarrow> string list \<Rightarrow> saveError + files" where
  "saveURLs creatable fs filename us =
     (if creatable filename then Inr (fs(filename \<mapsto> writeLoop us []))
      else Inl (CreateError filename))"

subsection \<open>The result map of the classifying variant\<close>

text \<open>
  \<open>results\<close> is a \<open>map[int][]string\<close>. The collector's statement (part_000 line 184) is
  \<open>results[code] = append(results[code], url)\<close>; reading a missing key gives the empty
  slice.
\<close>

type_synonym results = "int \<rightharpoonup> string list"

definition slot :: "results \<Rightarrow> int \<Rightarrow> string list" where
  "slot res k = (case res k of None \<Rightarrow> [] | Some us \<Rightarrow> us)"

definition addResult :: "results \<Rightarrow> statusResult \<Rightarrow> results" where
  "addResult res r = res(statusCode r \<mapsto> slot res (statusCode r) @ [url r])"

text \<open>The map after the collector has taken the results \<open>rs\<close>, in that order.\<close>

definition collect :: "statusResult list \<Rightarrow> results" where
  "collect rs = foldl addResult Map.empty rs"

text \<open>
  \<open>fmt.Sprintf\<close> with \<open>%d\<close>, and Go's integer division, which truncates towards zero.
\<close>

definition digitChar :: "nat \<Rightarrow> char" where
  "digitChar n = ''0123456789'' ! n"

fun natDigits :: "nat \<Rightarrow> string" where
  "natDigits n = (if n < 10 then [digitChar n] else natDigits (n div 10) @ [digitChar (n mod 10)])"

declare natDigits.simps [simp del]

definition itoa :: "int \<Rightarrow> string" where
  "itoa i = (if i < 0 then CHR ''-'' # natDigits (nat (- i)) else natDigits (nat i))"

definition quot :: "int \<Rightarrow> int \<Rightarrow> int" where
  "quot a b = (if (a < 0) = (b < 0) then \<bar>a\<bar> div \<bar>b\<bar> else - (\<bar>a\<bar> div \<bar>b\<bar>))"

text \<open>Line 222: \<open>fmt.Sprintf("%s_%dxx.txt", *outputPtr, status/100)\<close>.\<close>

definition rangeFile :: "string \<Rightarrow> int \<Rightarrow> string" where
  "rangeFile base status = base @ ''_'' @ itoa (quot status 100) @ ''xx.txt''"

text \<open>
  Go leaves the order of \<open>range\<close> over a map unspecified: both loops below take the
  keys in the order \<open>ks\<close> of one run, any list of the map's keys without repetition.
\<close>

definition iterationOrder :: "results \<Rightarrow> int list \<Rightarrow> bool" where
  "iterationOrder res ks = (distinct ks \<and> set ks = dom res)"

text \<open>Lines 208 to 213: the loop that gathers the URLs of the selected status codes.\<close>

fun filterLoop :: "(int \<rightharpoonup> bool) \<Rightarrow> results \<Rightarrow> int list \<Rightarrow> string list \<Rightarrow> string list" where
  "filterLoop ranges res [] filteredURLs = filteredURLs"
| "filterLoop ranges res (status # ks) filteredURLs =
     (if lookupBool ranges status
      then filterLoop ranges res ks (filteredURLs @ slot res status)
      else filterLoop ranges res ks filteredURLs)"

text \<open>
  Lines 221 to 228: one call of saveURLs per key of \<open>results\<close>; a failure ends the
  process with status 1, and what was written before stays.
\<close>

fun saveByClass :: "(string \<Rightarrow> bool) \<Rightarrow> string \<Rightarrow> results \<Rightarrow> int list \<Rightarrow> files \<Rightarrow> files \<times> nat" where
  "saveByClass creatable base res [] fs = (fs, 0)"
| "saveByClass creatable base res (status # ks) fs =
     (case saveURLs creatable fs (rangeFile base status) (slot res status) of
        Inl e \<Rightarrow> (fs, 1)
      | Inr fs' \<Rightarrow> saveByClass creatable base res ks fs')"

text \<open>
  Lines 205 to 232 of main: the files after the run and the exit status, from the
  filter, the result map and the iteration order.
\<close>

definition saveResults ::
  "(string \<Rightarrow> bool) \<Rightarrow> string \<Rightarrow> (int \<rightharpoonup> bool) option \<Rightarrow> results \<Rightarrow> int list \<Rightarrow> files \<Rightarrow> files \<times> nat" where
  "saveResults creatable base statusRanges res ks fs =
     (case statusRanges of
        Some ranges \<Rightarrow>
          (case saveURLs creatable fs (base @ ''.txt'') (filterLoop ranges res ks []) of
             Inl e \<Rightarrow> (fs, 1)
           | Inr fs' \<Rightarrow> (fs', 0))
      | None \<Rightarrow> saveByClass creatable base res ks fs)"

section \<open>processURLs and the goroutines it starts\<close>

text \<open>
  A run-time panic in any goroutine ends the whole process. The panics the programs can
  raise: \<open>make(chan struct{}, n)\<close> with negative \<open>n\<close>, the integer division
  \<open>time.Second / time.Duration(0)\<close>, \<open>time.NewTicker\<close> with a period that is not
  positive, a send on a closed channel and the close of a closed channel.
\<close>

datatype panic =
  MakeChanSizeOutOfRange | IntegerDivideByZero | NonPositiveTickerInterval
  | SendOnClosedChannel | CloseOfClosedChannel

text \<open>
  The first three statements of processURLs (liveurls.go lines 44 to 46, part_000 lines
  49 to 51): the capacity of the semaphore channel and the ticker's period in
  nanoseconds, or the panic. Both come from \<open>requestsPerSecond\<close> alone.
\<close>

definition processURLs_setup :: "int \<Rightarrow> panic + (nat \<times> int)" where
  "processURLs_setup requestsPerSecond =
     (if requestsPerSecond < 0 then Inl MakeChanSizeOutOfRange
      else if requestsPerSecond = 0 then Inl IntegerDivideByZero
      else if 1000000000 div requestsPerSecond \<le> 0 then Inl NonPositiveTickerInterval
      else Inr (nat requestsPerSecond, 1000000000 div requestsPerSecond))"

text \<open>
  The goroutines run interleaved; a run is a list of events, each one atomic step of one
  goroutine, and a step that cannot be taken (the goroutine is elsewhere, or blocked) is
  \<open>None\<close>. Time is not modelled: a tick may arrive whenever the loop waits for one.

  The dispatch loop of processURLs is at the head of the \<open>for\<close> loop (\<open>D_Loop\<close>), has
  taken a tick and waits for a semaphore slot (\<open>D_Acquire\<close>), is in \<open>wg.Wait()\<close>
  (\<open>D_Wait\<close>), has returned (\<open>D_Returned\<close>), or its caller has closed \<open>outputChan\<close>
  after it (\<open>D_Closed\<close>, in the variants with a stop channel).

  The goroutine of endpoint \<open>i\<close> is not started (\<open>P_Idle\<close>), in checkURL up to the
  return of \<open>http.Head\<close> (\<open>P_Head\<close>), about to send on \<open>outputChan\<close> (\<open>P_Send\<close>),
  about to run the deferred \<open>wg.Done()\<close> (\<open>P_WgDone\<close>), back from checkURL and about
  to release its semaphore slot (\<open>P_Release\<close>), or gone (\<open>P_Exit\<close>).

  The state: the slice \<open>urls\<close>; the capacity of \<open>semaphore\<close> and the slots taken; the
  index of the next endpoint of the loop; the counter of the wait group; the goroutine
  of each endpoint; what \<open>outputChan\<close> holds and whether it is closed; whether the stop
  channel is closed; the panic that ended the process, if any.
\<close>

datatype dpc = D_Loop | D_Acquire | D_Wait | D_Returned | D_Closed

datatype 'a ppc = P_Idle | P_Head | P_Send 'a | P_WgDone | P_Release | P_Exit

record 'a proc =
  urlList :: "string list"
  semCap :: nat
  nxt :: nat
  dpc :: dpc
  sem :: nat
  wg :: nat
  pst :: "'a ppc list"
  outputChan :: "'a list"
  chanClosed :: bool
  stopClosed :: bool
  crashed :: "panic option"

datatype pevent =
  Tick | StopSeen | LoopEnd | Spawn | WaitDone
  | HeadReturns nat | Send nat | WgDone nat | Release nat

text \<open>
  One step of processURLs or of a goroutine it started. \<open>check i u\<close> is what checkURL
  sends for endpoint \<open>i\<close> with URL \<open>u\<close>. \<open>outputChan\<close> has the capacity \<open>len(urls)\<close>.
\<close>

fun procStep ::
  "(nat \<Rightarrow> string \<Rightarrow> 'a option) \<Rightarrow> ('a, 'z) proc_scheme \<Rightarrow> pevent \<Rightarrow> ('a, 'z) proc_scheme option" where
  "procStep check s Tick =
     (if dpc s = D_Loop \<and> nxt s < length (urlList s) then Some (s\<lparr>dpc := D_Acquire\<rparr>) else None)"
| "procStep check s StopSeen =
     (if dpc s = D_Loop \<and> nxt s < length (urlList s) \<and> stopClosed s
      then Some (s\<lparr>dpc := D_Returned\<rparr>) else None)"
| "procStep check s LoopEnd =
     (if dpc s = D_Loop \<and> nxt s = length (urlList s) then Some (s\<lparr>dpc := D_Wait\<rparr>) else None)"
| "procStep check s Spawn =
     (if dpc s = D_Acquire \<and> sem s < semCap s
      then Some (s\<lparr>sem := sem s + 1, wg := wg s + 1, pst := (pst s)[nxt s := P_Head],
                   nxt := nxt s + 1, dpc := D_Loop\<rparr>)
      else None)"
| "procStep check s WaitDone =
     (if dpc s = D_Wait \<and> wg s = 0 then Some (s\<lparr>dpc := D_Returned\<rparr>) else None)"
| "procStep check s (HeadReturns i) =
     (if i < length (pst s) \<and> pst s ! i = P_Head
      then Some (s\<lparr>pst := (pst s)[i := (case check i (urlList s ! i) of
                                           None \<Rightarrow> P_WgDone | Some x \<Rightarrow> P_Send x)]\<rparr>)
      else None)"
| "procStep check s (Send i) =
     (if i < length (pst s)
      then (case pst s ! i of
              P_Send x \<Rightarrow>
                (if chanClosed s then Some (s\<lparr>crashed := Some SendOnClosedChannel\<rparr>)
                 else if length (outputChan s) < length (urlList s)
                 then Some (s\<lparr>outputChan := outputChan s @ [x], pst := (pst s)[i := P_WgDone]\<rparr>)
                 else None)
            | _ \<Rightarrow> None)
      else None)"
| "procStep check s (WgDone i) =
     (if i < length (pst s) \<and> pst s ! i = P_WgDone
      then Some (s\<lparr>wg := wg s - 1, pst := (pst s)[i := P_Release]\<rparr>) else None)"
| "procStep check s (Release i) =
     (if i < length (pst s) \<and> pst s ! i = P_Release
      then Some (s\<lparr>sem := sem s - 1, pst := (pst s)[i := P_Exit]\<rparr>) else None)"

text \<open>A goroutine is a running Prober while it is inside checkURL.\<close>

fun inCheckURL :: "'a ppc \<Rightarrow> bool" where
  "inCheckURL P_Head = True"
| "inCheckURL (P_Send x) = True"
| "inCheckURL P_WgDone = True"
| "inCheckURL _ = False"

fun holdsSlot :: "'a ppc \<Rightarrow> bool" where
  "holdsSlot P_Idle = False"
| "holdsSlot P_Exit = False"
| "holdsSlot _ = True"

definition running :: "('a, 'z) proc_scheme \<Rightarrow> nat" where
  "running s = length (filter inCheckURL (pst s))"

text \<open>A run: the events in order, from a state; \<open>None\<close> when one of them cannot be taken.\<close>

fun run :: "('s \<Rightarrow> 'e \<Rightarrow> 's option) \<Rightarrow> 's \<Rightarrow> 'e list \<Rightarrow> 's option" where
  "run step s [] = Some s"
| "run step s (e # es) = (case step s e of None \<Rightarrow> None | Some s' \<Rightarrow> run step s' es)"

section \<open>The programs\<close>

text \<open>The flags of main, and the world outside: the network and the file system.\<close>

record flags =
  outputPtr :: string
  ratePtr :: int
  verbosePtr :: bool
  onlyPtr :: string

record world =
  httpHead :: "nat \<Rightarrow> string \<Rightarrow> response"
  canCreate :: "string \<Rightarrow> bool"

text \<open>How a process ends without a run: \<open>os.Exit\<close> with a status, or a panic.\<close>

datatype ending = Exited nat | Panicked panic

subsection \<open>liveurls.go, lines 1 to 152\<close>

text \<open>
  main ranges over \<open>outputChan\<close> (\<open>M1_Range\<close>, lines 122 to 124), closes it
  (\<open>M1_Close\<close>, line 127), writes the file (\<open>M1_Write\<close>, lines 130 to 145) and ends.
\<close>

datatype mpc1 = M1_Range | M1_Close | M1_Write | M1_Exited nat

record sys1 = "string proc" +
  liveURLs :: "string list"
  mpc :: mpc1
  disk :: files

datatype event1 = P1 pevent | MainRecv | MainLoopExit | MainClose | MainWrite

fun exited1 :: "mpc1 \<Rightarrow> bool" where
  "exited1 (M1_Exited c) = True"
| "exited1 _ = False"

text \<open>processURLs of this program has no stop channel: it never takes \<open>StopSeen\<close>.\<close>

fun main1Step :: "flags \<Rightarrow> world \<Rightarrow> sys1 \<Rightarrow> event1 \<Rightarrow> sys1 option" where
  "main1Step fl w s (P1 StopSeen) = None"
| "main1Step fl w s (P1 pe) =
     procStep (\<lambda>i u. sent (checkURL (verbosePtr fl) (httpHead w i) u)) s pe"
| "main1Step fl w s MainRecv =
     (if mpc s = M1_Range
      then (case outputChan s of
              [] \<Rightarrow> None
            | x # rest \<Rightarrow> Some (s\<lparr>outputChan := rest, liveURLs := liveURLs s @ [x]\<rparr>))
      else None)"
| "main1Step fl w s MainLoopExit =
     (if mpc s = M1_Range \<and> outputChan s = [] \<and> chanClosed s
      then Some (s\<lparr>mpc := M1_Close\<rparr>) else None)"
| "main1Step fl w s MainClose =
     (if mpc s = M1_Close
      then (if chanClosed s then Some (s\<lparr>crashed := Some CloseOfClosedChannel\<rparr>)
            else Some (s\<lparr>chanClosed := True, mpc := M1_Write\<rparr>))
      else None)"
| "main1Step fl w s MainWrite =
     (if mpc s = M1_Write
      then (case saveURLs (canCreate w) (disk s) (outputPtr fl) (liveURLs s) of
              Inl e \<Rightarrow> Some (s\<lparr>mpc := M1_Exited 1\<rparr>)
            | Inr d \<Rightarrow> Some (s\<lparr>disk := d, mpc := M1_Exited 0\<rparr>))
      else None)"

definition step1 :: "flags \<Rightarrow> world \<Rightarrow> sys1 \<Rightarrow> event1 \<Rightarrow> sys1 option" where
  "step1 fl w s e = (if crashed s = None \<and> \<not> exited1 (mpc s) then main1Step fl w s e else None)"

definition init1 :: "string list \<Rightarrow> nat \<Rightarrow> files \<Rightarrow> sys1" where
  "init1 us c d =
     \<lparr>urlList = us, semCap = c, nxt = 0, dpc = D_Loop, sem = 0, wg = 0,
      pst = replicate (length us) P_Idle, outputChan = [], chanClosed = False,
      stopClosed = False, crashed = None, liveURLs = [], mpc = M1_Range, disk = d\<rparr>"

text \<open>
  main from line 109 to line 118, once the input has been scanned to its end without
  error, \<open>lines\<close> being the scanner's tokens: an empty list ends the process with
  status 1, and processURLs starts in its goroutine, where a panic ends the process.
  What precedes, the exits on an input that cannot be opened or read, is in
  \<open>mainStart1\<close> below.
\<close>

definition start1 :: "(string \<Rightarrow> string) \<Rightarrow> flags \<Rightarrow> string list \<Rightarrow> files \<Rightarrow> ending + sys1" where
  "start1 trim fl lines d =
     (let us = readURLs trim lines in
      if us = [] then Inl (Exited 1)
      else (case processURLs_setup (ratePtr fl) of
              Inl p \<Rightarrow> Inl (Panicked p)
            | Inr (c, period) \<Rightarrow> Inr (init1 us c d)))"

text \<open>
  What main finds when it reads its input (lines 75 to 107). The file named by \<open>-l\<close>
  cannot be opened (\<open>OpenFailed\<close>, lines 76 to 80; never so for standard input); or the
  scanner gives its tokens and stops at the end of the input, \<open>scanner.Err()\<close> being
  nil (\<open>ScanEnded\<close>); or it gives some tokens and stops on an error, a failed read or a
  line longer than its buffer (\<open>ScanFailed\<close>, lines 90 to 93 and 103 to 106).
\<close>

datatype input = OpenFailed | ScanEnded "string list" | ScanFailed "string list"

text \<open>
  main from line 72 to line 118. The two failures end the process with status 1 before
  the length of the list is looked at and before processURLs is started: the tokens
  read before a failure are appended to the list and then dropped with the process.
\<close>

fun mainStart1 :: "(string \<Rightarrow> string) \<Rightarrow> flags \<Rightarrow> input \<Rightarrow> files \<Rightarrow> ending + sys1" where
  "mainStart1 trim fl OpenFailed d = Inl (Exited 1)"
| "mainStart1 trim fl (ScanFailed lines) d =
     (let us = readURLs trim lines in Inl (Exited 1))"
| "mainStart1 trim fl (ScanEnded lines) d = start1 trim fl lines d"

text \<open>
  The flags as \<open>flag.Parse\<close> leaves them when none is given (liveurls.go lines 66 to
  69; part_000 has the default \<open>status\<close> for the output and the flag \<open>only\<close> besides).
\<close>

definition defaultFlags :: flags where
  "defaultFlags = \<lparr>outputPtr = ''live_urls.txt'', ratePtr = 10, verbosePtr = False, onlyPtr = []\<rparr>"

subsection \<open>liveurls.go, lines 153 to 338, and part_000\<close>

text \<open>
  The two programs with a stop channel have the same main but for what checkURL sends
  and how the results are saved. The goroutines main starts: the one that calls
  processURLs and then closes \<open>outputChan\<close>; the collector, which receives a result
  (\<open>C_Hold\<close>) and then appends it under the mutex; and, for the second case of the
  \<open>select\<close>, one that receives from \<open>outputChan\<close> too, throws away what it gets and
  closes \<open>done\<close> when the channel is closed and empty. main waits in the \<open>select\<close>
  (\<open>M2_Select\<close>), saves (\<open>M2_Save\<close>) and ends; when main has returned the process is
  over, whatever the other goroutines were doing.

  \<open>received\<close> is what the collector has appended, in order: \<open>liveURLs\<close> in liveurls.go,
  and in part_000 the results whose insertion makes the map \<open>collect (received s)\<close>.
  main reads it without taking the mutex; the model takes that read as one step. The
  signal is an event of its own, taken while main waits in the \<open>select\<close>; Go chooses
  among the ready cases of a \<open>select\<close> at random, so a step is possible for each.
\<close>

datatype 'a cpc = C_Recv | C_Hold 'a | C_Done

datatype mpc2 = M2_Select | M2_Save | M2_Exited nat

record 'a sys2 = "'a proc" +
  received :: "'a list"
  cpc :: "'a cpc"
  doneClosed :: bool
  interrupted :: bool
  mpc2 :: mpc2
  disk2 :: files

text \<open>
  What differs between the two programs: the value checkURL sends for endpoint \<open>i\<close>,
  the orders in which the saving code may iterate its map, and the saving code itself,
  which gives the files and the exit status.
\<close>

record 'a variant =
  check :: "nat \<Rightarrow> string \<Rightarrow> 'a option"
  orderOk :: "int list \<Rightarrow> 'a list \<Rightarrow> bool"
  saveAll :: "int list \<Rightarrow> 'a list \<Rightarrow> files \<Rightarrow> files \<times> nat"

text \<open>liveurls.go lines 327 to 331: saveURLs on \<open>liveURLs\<close>; no map is iterated.\<close>

definition liveVariant :: "flags \<Rightarrow> world \<Rightarrow> string variant" where
  "liveVariant fl w =
     \<lparr>check = (\<lambda>i u. sent (checkURL (verbosePtr fl) (httpHead w i) u)),
      orderOk = (\<lambda>ks live. ks = []),
      saveAll = (\<lambda>ks live d.
         case saveURLs (canCreate w) d (outputPtr fl) live of
           Inl e \<Rightarrow> (d, 1)
         | Inr d' \<Rightarrow> (d', 0))\<rparr>"

text \<open>part_000 lines 162 and 205 to 232.\<close>

definition statusVariant :: "(string \<Rightarrow> string) \<Rightarrow> flags \<Rightarrow> world \<Rightarrow> statusResult variant" where
  "statusVariant trim fl w =
     \<lparr>check = (\<lambda>i u. sent (checkURL_status (verbosePtr fl) (httpHead w i) u)),
      orderOk = (\<lambda>ks rs. iterationOrder (collect rs) ks),
      saveAll = (\<lambda>ks rs d.
         saveResults (canCreate w) (outputPtr fl) (parseStatusRanges trim (onlyPtr fl))
           (collect rs) ks d)\<rparr>"

datatype event2 =
  P2 pevent | CloseOut | CollectRecv | CollectAppend | DrainRecv
  | Interrupt | DoneSeen | Save "int list"

fun exited2 :: "mpc2 \<Rightarrow> bool" where
  "exited2 (M2_Exited c) = True"
| "exited2 _ = False"

fun main2Step :: "'a variant \<Rightarrow> 'a sys2 \<Rightarrow> event2 \<Rightarrow> 'a sys2 option" where
  "main2Step v s (P2 pe) = procStep (check v) s pe"
| "main2Step v s CloseOut =
     (if dpc s = D_Returned then Some (s\<lparr>chanClosed := True, dpc := D_Closed\<rparr>) else None)"
| "main2Step v s CollectRecv =
     (if cpc s = C_Recv
      then (case outputChan s of
              x # rest \<Rightarrow> Some (s\<lparr>outputChan := rest, cpc := C_Hold x\<rparr>)
            | [] \<Rightarrow> (if chanClosed s then Some (s\<lparr>cpc := C_Done\<rparr>) else None))
      else None)"
| "main2Step v s CollectAppend =
     (case cpc s of
        C_Hold x \<Rightarrow> Some (s\<lparr>received := received s @ [x], cpc := C_Recv\<rparr>)
      | _ \<Rightarrow> None)"
| "main2Step v s DrainRecv =
     (if doneClosed s then None
      else (case outputChan s of
              x # rest \<Rightarrow> Some (s\<lparr>outputChan := rest\<rparr>)
            | [] \<Rightarrow> (if chanClosed s then Some (s\<lparr>doneClosed := True\<rparr>) else None)))"
| "main2Step v s Interrupt =
     (if mpc2 s = M2_Select
      then Some (s\<lparr>stopClosed := True, interrupted := True, mpc2 := M2_Save\<rparr>) else None)"
| "main2Step v s DoneSeen =
     (if mpc2 s = M2_Select \<and> doneClosed s then Some (s\<lparr>mpc2 := M2_Save\<rparr>) else None)"
| "main2Step v s (Save ks) =
     (if mpc2 s = M2_Save \<and> orderOk v ks (received s)
      then (case saveAll v ks (received s) (disk2 s) of
              (d, c) \<Rightarrow> Some (s\<lparr>disk2 := d, mpc2 := M2_Exited c\<rparr>))
      else None)"

definition step2 :: "'a variant \<Rightarrow> 'a sys2 \<Rightarrow> event2 \<Rightarrow> 'a sys2 option" where
  "step2 v s e = (if crashed s = None \<and> \<not> exited2 (mpc2 s) then main2Step v s e else None)"

definition init2 :: "string list \<Rightarrow> nat \<Rightarrow> files \<Rightarrow> 'a sys2" where
  "init2 us c d =
     \<lparr>urlList = us, semCap = c, nxt = 0, dpc = D_Loop, sem = 0, wg = 0,
      pst = replicate (length us) P_Idle, outputChan = [], chanClosed = False,
      stopClosed = False, crashed = None, received = [], cpc = C_Recv,
      doneClosed = False, interrupted = False, mpc2 = M2_Select, disk2 = d\<rparr>"

text \<open>
  As \<open>start1\<close>: main from the check of the list's length on, once the input has been
  scanned to its end without error. A signal that main would take before processURLs
  has run its first statements is left out.
\<close>

definition start2 :: "(string \<Rightarrow> string) \<Rightarrow> flags \<Rightarrow> string list \<Rightarrow> files \<Rightarrow> ending + 'a sys2" where
  "start2 trim fl lines d =
     (let us = readURLs trim lines in
      if us = [] then Inl (Exited 1)
      else (case processURLs_setup (ratePtr fl) of
              Inl p \<Rightarrow> Inl (Panicked p)
            | Inr (c, period) \<Rightarrow> Inr (init2 us c d)))"

text \<open>
  As \<open>mainStart1\<close>: the same exits on an input that cannot be opened or read
  (liveurls.go lines 246 to 278, part_000 lines 122 to 154).
\<close>

fun mainStart2 :: "(string \<Rightarrow> string) \<Rightarrow> flags \<Rightarrow> input \<Rightarrow> files \<Rightarrow> ending + 'a sys2" where
  "mainStart2 trim fl OpenFailed d = Inl (Exited 1)"
| "mainStart2 trim fl (ScanFailed lines) d =
     (let us = readURLs trim lines in Inl (Exited 1))"
| "mainStart2 trim fl (ScanEnded lines) d = start2 trim fl lines d"

section \<open>Invariants of the runs\<close>

text \<open>
  What holds of processURLs and its goroutines at every moment: the endpoints from
  \<open>nxt\<close> on are not started, the semaphore holds one slot per goroutine that has not
  released its own, the wait group counts the goroutines inside checkURL, and the
  semaphore is never over its capacity.
\<close>

definition procInv :: "('a, 'z) proc_scheme \<Rightarrow> bool" where
  "procInv s =
     (length (pst s) = length (urlList s) \<and> nxt s \<le> length (urlList s)
      \<and> (\<forall>i < length (pst s). nxt s \<le> i \<longrightarrow> pst s ! i = P_Idle)
      \<and> sem s = length (filter holdsSlot (pst s))
      \<and> wg s = length (filter inCheckURL (pst s))
      \<and> sem s \<le> semCap s
      \<and> (dpc s = D_Acquire \<longrightarrow> nxt s < length (urlList s)))"

text \<open>
  A value is genuine in a state when checkURL sends it for an endpoint that has been
  started.
\<close>

definition genuine :: "(nat \<Rightarrow> string \<Rightarrow> 'a option) \<Rightarrow> ('a, 'z) proc_scheme \<Rightarrow> 'a \<Rightarrow> bool" where
  "genuine chk s x = (\<exists>i < nxt s. i < length (urlList s) \<and> chk i (urlList s ! i) = Some x)"

text \<open>
  What holds at every moment of a run of the first program (liveurls.go lines 1 to
  152): main is still in its \<open>range\<close> loop, the channel is open, nothing is written.
\<close>

definition inv1 :: "files \<Rightarrow> sys1 \<Rightarrow> bool" where
  "inv1 d s = (mpc s = M1_Range \<and> \<not> chanClosed s \<and> disk s = d \<and> crashed s = None)"

text \<open>
  What holds at every moment of a run of a program with a stop channel: every value in
  the channel, held by the collector or appended by it is genuine, a goroutine about to
  send holds what checkURL gave it, the files are untouched until main saves, and after
  main has ended they are what the saving code made of the values appended by then.
\<close>

definition inv2 :: "'a variant \<Rightarrow> files \<Rightarrow> 'a sys2 \<Rightarrow> bool" where
  "inv2 v d s =
     (procInv s
      \<and> (\<forall>x \<in> set (outputChan s). genuine (check v) s x)
      \<and> (\<forall>x \<in> set (received s). genuine (check v) s x)
      \<and> (\<forall>x. cpc s = C_Hold x \<longrightarrow> genuine (check v) s x)
      \<and> (\<forall>i < length (pst s). \<forall>x. pst s ! i = P_Send x \<longrightarrow> check v i (urlList s ! i) = Some x)
      \<and> (\<not> exited2 (mpc2 s) \<longrightarrow> disk2 s = d)
      \<and> (\<forall>c. mpc2 s = M2_Exited c \<longrightarrow>
            (\<exists>ks. orderOk v ks (received s) \<and> saveAll v ks (received s) d = (disk2 s, c))))"

section \<open>Properties of the scheme check\<close>





section \<open>Properties of the status-class filter\<close>










section \<open>Properties of the report\<close>
















text \<open>
  C2, where the code departs from it: with no filter and two results of one class but
  different codes (\<open>a\<close> with 200, \<open>b\<close> with 204), saveURLs is called twice on
  \<open>status_2xx.txt\<close> and the second call truncates what the first wrote. In either order
  of iteration the file ends with one of the two URLs only.
\<close>

theorem by_class_file_overwritten:
  "fst (saveResults (\<lambda>_. True) ''status'' None
         (collect [\<lparr>url = ''http://a'', statusCode = 200\<rparr>, \<lparr>url = ''http://b'', statusCode = 204\<rparr>])
         [200, 204] Map.empty) ''status_2xx.txt''
     = Some (''http://b'' @ [CHR 0x0A])
   \<and> fst (saveResults (\<lambda>_. True) ''status'' None
         (collect [\<lparr>url = ''http://a'', statusCode = 200\<rparr>, \<lparr>url = ''http://b'', statusCode = 204\<rparr>])
         [204, 200] Map.empty) ''status_2xx.txt''
     = Some (''http://a'' @ [CHR 0x0A])
   \<and> iterationOrder
        (collect [\<lparr>url = ''http://a'', statusCode = 200\<rparr>, \<lparr>url = ''http://b'', statusCode = 204\<rparr>])
        [200, 204]
   \<and> iterationOrder
        (collect [\<lparr>url = ''http://a'', statusCode = 200\<rparr>, \<lparr>url = ''http://b'', statusCode = 204\<rparr>])
        [204, 200]"
  by (auto simp add: saveResults_def saveURLs_def collect_def addResult_def slot_def
      rangeFile_def itoa_def quot_def natDigits.simps digitChar_def iterationOrder_def)

section \<open>Properties of the runs\<close>

lemma run_invariant:
  assumes "run step s es = Some t" and "I s"
    and "\<And>a e b. I a \<Longrightarrow> step a e = Some b \<Longrightarrow> I b"
  shows "I t"
  using assms(1,2)
proof (induction es arbitrary: s)
  case Nil
  then show ?case by simp
next
  case (Cons e es)
  then obtain s' where s': "step s e = Some s'" and r: "run step s' es = Some t"
    by (auto split: option.splits)
  from assms(3) [OF Cons.prems(2) s'] have "I s'" .
  with Cons.IH r show ?case by blast
qed

lemma filter_update_len:
  "i < length xs \<Longrightarrow>
   length (filter P (xs[i := v])) + (if P (xs ! i) then 1 else 0)
     = length (filter P xs) + (if P v then 1 else 0)"
proof (induction xs arbitrary: i)
  case Nil
  then show ?case by simp
next
  case (Cons x xs)
  show ?case
  proof (cases i)
    case 0
    then show ?thesis by simp
  next
    case (Suc j)
    with Cons.prems have "j < length xs" by simp
    from Cons.IH [OF this] Suc show ?thesis by simp
  qed
qed

lemma procInv_idle_above:
  "procInv s \<Longrightarrow> i < length (pst s) \<Longrightarrow> pst s ! i \<noteq> P_Idle \<Longrightarrow> i < nxt s"
  unfolding procInv_def by (meson not_le)

lemma procInv_update_started:
  assumes inv: "procInv s" and i: "i < length (pst s)" and ni: "pst s ! i \<noteq> P_Idle"
    and h: "holdsSlot p = holdsSlot (pst s ! i)" and c: "inCheckURL p = inCheckURL (pst s ! i)"
    and np: "p \<noteq> P_Idle"
  shows "procInv (s\<lparr>pst := (pst s)[i := p]\<rparr>)"
proof -
  have a: "length (filter holdsSlot ((pst s)[i := p])) = length (filter holdsSlot (pst s))"
    using filter_update_len [OF i, of holdsSlot p] h by simp
  have b: "length (filter inCheckURL ((pst s)[i := p])) = length (filter inCheckURL (pst s))"
    using filter_update_len [OF i, of inCheckURL p] c by simp
  have lt: "i < nxt s" using procInv_idle_above [OF inv i ni] .
  have idle: "\<forall>j < length (pst s). nxt s \<le> j \<longrightarrow> (pst s)[i := p] ! j = P_Idle"
    using inv lt by (simp add: procInv_def nth_list_update)
  show ?thesis
    using inv idle by (simp add: procInv_def a b)
qed

lemma procInv_Spawn:
  assumes inv: "procInv s" and st: "procStep chk s Spawn = Some t"
  shows "procInv t"
proof -
  from st have g: "dpc s = D_Acquire" "sem s < semCap s"
    and t: "t = s\<lparr>sem := sem s + 1, wg := wg s + 1, pst := (pst s)[nxt s := P_Head],
                   nxt := nxt s + 1, dpc := D_Loop\<rparr>"
    by (auto split: if_splits)
  from inv g have n: "nxt s < length (pst s)" and idle: "pst s ! nxt s = P_Idle"
    by (simp_all add: procInv_def)
  have a: "length (filter holdsSlot ((pst s)[nxt s := P_Head])) = length (filter holdsSlot (pst s)) + 1"
    using filter_update_len [OF n, of holdsSlot P_Head] idle by simp
  have b: "length (filter inCheckURL ((pst s)[nxt s := P_Head])) = length (filter inCheckURL (pst s)) + 1"
    using filter_update_len [OF n, of inCheckURL P_Head] idle by simp
  show ?thesis
    using inv g n unfolding t by (simp add: procInv_def a b)
qed

lemma procInv_WgDone:
  assumes inv: "procInv s" and st: "procStep chk s (WgDone i) = Some t"
  shows "procInv t"
proof -
  from st have i: "i < length (pst s)" and p: "pst s ! i = P_WgDone"
    and t: "t = s\<lparr>wg := wg s - 1, pst := (pst s)[i := P_Release]\<rparr>"
    by (auto split: if_splits)
  have a: "length (filter holdsSlot ((pst s)[i := P_Release])) = length (filter holdsSlot (pst s))"
    using filter_update_len [OF i, of holdsSlot P_Release] p by simp
  have b: "length (filter inCheckURL ((pst s)[i := P_Release])) + 1 = length (filter inCheckURL (pst s))"
    using filter_update_len [OF i, of inCheckURL P_Release] p by simp
  have lt: "i < nxt s" using procInv_idle_above [OF inv i] p by simp
  have idle: "\<forall>j < length (pst s). nxt s \<le> j \<longrightarrow> (pst s)[i := P_Release] ! j = P_Idle"
    using inv lt by (simp add: procInv_def nth_list_update)
  show ?thesis
    using inv idle b unfolding t by (simp add: procInv_def a)
qed

lemma procInv_Release:
  assumes inv: "procInv s" and st: "procStep chk s (Release i) = Some t"
  shows "procInv t"
proof -
  from st have i: "i < length (pst s)" and p: "pst s ! i = P_Release"
    and t: "t = s\<lparr>sem := sem s - 1, pst := (pst s)[i := P_Exit]\<rparr>"
    by (auto split: if_splits)
  have a: "length (filter holdsSlot ((pst s)[i := P_Exit])) + 1 = length (filter holdsSlot (pst s))"
    using filter_update_len [OF i, of holdsSlot P_Exit] p by simp
  have b: "length (filter inCheckURL ((pst s)[i := P_Exit])) = length (filter inCheckURL (pst s))"
    using filter_update_len [OF i, of inCheckURL P_Exit] p by simp
  have lt: "i < nxt s" using procInv_idle_above [OF inv i] p by simp
  have idle: "\<forall>j < length (pst s). nxt s \<le> j \<longrightarrow> (pst s)[i := P_Exit] ! j = P_Idle"
    using inv lt by (simp add: procInv_def nth_list_update)
  show ?thesis
    using inv idle a unfolding t by (auto simp add: procInv_def b)
qed

lemma procInv_HeadReturns:
  assumes inv: "procInv s" and st: "procStep chk s (HeadReturns i) = Some t"
  shows "procInv t"
proof -
  from st have i: "i < length (pst s)" and p: "pst s ! i = P_Head"
    and t: "t = s\<lparr>pst := (pst s)[i := (case chk i (urlList s ! i) of
                                           None \<Rightarrow> P_WgDone | Some x \<Rightarrow> P_Send x)]\<rparr>"
    by (auto split: if_splits)
  show ?thesis unfolding t
    by (rule procInv_update_started [OF inv i]) (simp_all add: p split: option.split)
qed

lemma procInv_Send:
  assumes inv: "procInv s" and st: "procStep chk s (Send i) = Some t"
  shows "procInv t"
proof -
  from st have i: "i < length (pst s)" by (simp split: if_splits)
  from st i obtain x where p: "pst s ! i = P_Send x"
    by (cases "pst s ! i") simp_all
  from st i p have "t = s\<lparr>crashed := Some SendOnClosedChannel\<rparr>
      \<or> t = (s\<lparr>pst := (pst s)[i := P_WgDone]\<rparr>)\<lparr>outputChan := outputChan s @ [x]\<rparr>"
    by (auto split: if_splits)
  then show ?thesis
  proof
    assume "t = s\<lparr>crashed := Some SendOnClosedChannel\<rparr>"
    with inv show ?thesis by (simp add: procInv_def)
  next
    assume t: "t = (s\<lparr>pst := (pst s)[i := P_WgDone]\<rparr>)\<lparr>outputChan := outputChan s @ [x]\<rparr>"
    have "procInv (s\<lparr>pst := (pst s)[i := P_WgDone]\<rparr>)"
      by (rule procInv_update_started [OF inv i]) (simp_all add: p)
    then show ?thesis unfolding t by (simp add: procInv_def)
  qed
qed

lemma procInv_step:
  assumes inv: "procInv s" and st: "procStep chk s e = Some t"
  shows "procInv t"
proof (cases e)
  case Tick
  with inv st show ?thesis by (auto simp: procInv_def split: if_splits)
next
  case StopSeen
  with inv st show ?thesis by (auto simp: procInv_def split: if_splits)
next
  case LoopEnd
  with inv st show ?thesis by (auto simp: procInv_def split: if_splits)
next
  case Spawn
  with inv st show ?thesis by (simp only: procInv_Spawn)
next
  case WaitDone
  with inv st show ?thesis by (auto simp: procInv_def split: if_splits)
next
  case (HeadReturns i)
  with inv st show ?thesis by (simp only: procInv_HeadReturns)
next
  case (Send i)
  with inv st show ?thesis by (simp only: procInv_Send)
next
  case (WgDone i)
  with inv st show ?thesis by (simp only: procInv_WgDone)
next
  case (Release i)
  with inv st show ?thesis by (simp only: procInv_Release)
qed

lemma procStep_frame:
  assumes "procStep chk s e = Some t"
  shows "urlList t = urlList s \<and> semCap t = semCap s \<and> chanClosed t = chanClosed s
       \<and> stopClosed t = stopClosed s \<and> proc.more t = proc.more s
       \<and> (crashed t = crashed s \<or> chanClosed s)"
  using assms by (cases e) (auto split: if_splits ppc.splits)

lemma procStep_frame1:
  fixes s :: sys1
  assumes "procStep chk s e = Some t"
  shows "mpc t = mpc s \<and> disk t = disk s \<and> liveURLs t = liveURLs s"
  using assms by (cases e) (auto split: if_splits ppc.splits)

lemma start1_init:
  assumes "start1 trim fl lines d = Inr s0"
  shows "s0 = init1 (readURLs trim lines) (nat (ratePtr fl)) d \<and> 0 < ratePtr fl
       \<and> readURLs trim lines \<noteq> []"
  using assms
  by (auto simp: start1_def processURLs_setup_def Let_def split: if_splits)

text \<open>
  A run of main starts only on an input scanned to its end without error: every start
  that \<open>mainStart1\<close> gives is one that \<open>start1\<close> gives on the scanner's tokens.
\<close>

lemma mainStart1_started:
  "mainStart1 trim fl inp d = Inr s0
     \<longleftrightarrow> (\<exists>lines. inp = ScanEnded lines \<and> start1 trim fl lines d = Inr s0)"
  by (cases inp) simp_all

lemma procInv_init1: "0 < c \<Longrightarrow> procInv (init1 us c d)"
  by (simp add: procInv_def init1_def)

lemma inv1_step:
  assumes i: "inv1 d s" and st: "step1 fl w s e = Some t"
  shows "inv1 d t"
proof -
  from st have m: "main1Step fl w s e = Some t"
    by (simp add: step1_def split: if_splits)
  show ?thesis
  proof (cases e)
    case (P1 pe)
    with m have "procStep (\<lambda>i u. sent (checkURL (verbosePtr fl) (httpHead w i) u)) s pe = Some t"
      by (cases pe) simp_all
    from procStep_frame [OF this] procStep_frame1 [OF this] i show ?thesis
      by (auto simp: inv1_def)
  next
    case MainRecv
    with m i show ?thesis by (auto simp: inv1_def split: if_splits list.splits)
  next
    case MainLoopExit
    with m i show ?thesis by (auto simp: inv1_def split: if_splits)
  next
    case MainClose
    with m i show ?thesis by (auto simp: inv1_def split: if_splits)
  next
    case MainWrite
    with m i show ?thesis by (auto simp: inv1_def split: if_splits)
  qed
qed

lemma start1_example:
  "start1 TrimSpace_ascii defaultFlags [''example.com''] Map.empty
     = Inr (init1 [''example.com''] 10 Map.empty)"
  by (simp add: start1_def readURLs_def TrimSpace_ascii_def asciiSpace_def defaultFlags_def
      processURLs_setup_def Let_def)

text \<open>
  C6, where the code departs from it. In the first program (liveurls.go lines 1 to
  152) nothing closes \<open>outputChan\<close> before main's \<open>range\<close> loop over it, and the loop
  ends only on a closed channel: in every state of every run main is still in the loop,
  the channel is open and the file system is as it was at the start. The loop cannot be
  left and the output file is never written, whatever the probes returned.
\<close>

theorem first_program_never_writes:
  assumes "start1 trim fl lines d = Inr s0" and "run (step1 fl w) s0 es = Some s"
  shows "mpc s = M1_Range \<and> \<not> chanClosed s \<and> crashed s = None \<and> disk s = d
       \<and> step1 fl w s MainLoopExit = None \<and> step1 fl w s MainWrite = None"
proof -
  from start1_init [OF assms(1)] have "inv1 d s0"
    by (simp add: inv1_def init1_def)
  with assms(2) have "inv1 d s"
    by (rule run_invariant) (rule inv1_step)
  then show ?thesis by (simp add: inv1_def step1_def)
qed

theorem first_program_never_writes_witness:
  "start1 TrimSpace_ascii defaultFlags [''example.com''] Map.empty
     = Inr (init1 [''example.com''] 10 Map.empty)
   \<and> (\<exists>s. run (step1 defaultFlags \<lparr>httpHead = (\<lambda>i u. Status 200), canCreate = (\<lambda>f. True)\<rparr>)
            (init1 [''example.com''] 10 Map.empty)
            [P1 Tick, P1 Spawn, P1 LoopEnd, P1 (HeadReturns 0), P1 (Send 0), MainRecv,
             P1 (WgDone 0), P1 (Release 0), P1 WaitDone] = Some s
        \<and> liveURLs s = [''http://example.com''] \<and> dpc s = D_Returned
        \<and> mpc s = M1_Range \<and> disk s = Map.empty
        \<and> step1 defaultFlags \<lparr>httpHead = (\<lambda>i u. Status 200), canCreate = (\<lambda>f. True)\<rparr> s MainWrite = None)"
proof -
  let ?w = "\<lparr>httpHead = (\<lambda>i u. Status 200), canCreate = (\<lambda>f. True)\<rparr>"
  let ?es = "[P1 Tick, P1 Spawn, P1 LoopEnd, P1 (HeadReturns 0), P1 (Send 0), MainRecv,
             P1 (WgDone 0), P1 (Release 0), P1 WaitDone]"
  have r: "run (step1 defaultFlags ?w) (init1 [''example.com''] 10 Map.empty) ?es
      = Some \<lparr>urlList = [''example.com''], semCap = 10, nxt = 1, dpc = D_Returned, sem = 0,
          wg = 0, pst = [P_Exit], outputChan = [], chanClosed = False, stopClosed = False,
          crashed = None, liveURLs = [''http://example.com''], mpc = M1_Range, disk = Map.empty\<rparr>"
    by (simp add: step1_def init1_def checkURL_def addScheme_def HasPrefix_def Let_def)
  from first_program_never_writes [OF start1_example r]
  show ?thesis using r by (simp add: start1_example)
qed

text \<open>
  C3, where the code departs from it. The first program, one endpoint whose probe fails
  at the transport level, verbose mode off: after the probe has failed and processURLs
  has returned, no goroutine can take a step (main waits on a channel that nobody will
  close), main is still in its loop and no file has been written.
\<close>

theorem first_program_deadlocks:
  "start1 TrimSpace_ascii defaultFlags [''example.com''] Map.empty
     = Inr (init1 [''example.com''] 10 Map.empty)
   \<and> verbosePtr defaultFlags = False
   \<and> run (step1 defaultFlags \<lparr>httpHead = (\<lambda>i u. TransportError), canCreate = (\<lambda>f. True)\<rparr>)
         (init1 [''example.com''] 10 Map.empty)
         [P1 Tick, P1 Spawn, P1 LoopEnd, P1 (HeadReturns 0), P1 (WgDone 0), P1 (Release 0),
          P1 WaitDone]
       = Some \<lparr>urlList = [''example.com''], semCap = 10, nxt = 1, dpc = D_Returned, sem = 0,
          wg = 0, pst = [P_Exit], outputChan = [], chanClosed = False, stopClosed = False,
          crashed = None, liveURLs = [], mpc = M1_Range, disk = Map.empty\<rparr>
   \<and> (\<forall>e. step1 defaultFlags \<lparr>httpHead = (\<lambda>i u. TransportError), canCreate = (\<lambda>f. True)\<rparr>
          \<lparr>urlList = [''example.com''], semCap = 10, nxt = 1, dpc = D_Returned, sem = 0,
           wg = 0, pst = [P_Exit], outputChan = [], chanClosed = False, stopClosed = False,
           crashed = None, liveURLs = [], mpc = M1_Range, disk = Map.empty\<rparr> e = None)"
proof -
  let ?w = "\<lparr>httpHead = (\<lambda>i u. TransportError), canCreate = (\<lambda>f. True)\<rparr>"
  let ?sF = "\<lparr>urlList = [''example.com''], semCap = 10, nxt = 1, dpc = D_Returned, sem = 0,
          wg = 0, pst = [P_Exit], outputChan = [], chanClosed = False, stopClosed = False,
          crashed = None, liveURLs = [], mpc = M1_Range, disk = Map.empty\<rparr> :: sys1"
  have r: "run (step1 defaultFlags ?w) (init1 [''example.com''] 10 Map.empty)
         [P1 Tick, P1 Spawn, P1 LoopEnd, P1 (HeadReturns 0), P1 (WgDone 0), P1 (Release 0),
          P1 WaitDone] = Some ?sF"
    by (simp add: step1_def init1_def checkURL_def addScheme_def HasPrefix_def Let_def)
  have stuck: "step1 defaultFlags ?w ?sF e = None" for e
  proof (cases e)
    case (P1 pe)
    then show ?thesis by (cases pe) (auto simp: step1_def)
  qed (simp_all add: step1_def)
  have v: "verbosePtr defaultFlags = False" by (simp add: defaultFlags_def)
  show ?thesis using start1_example v r stuck by blast
qed

section \<open>Properties of cancellation\<close>









lemma procInv_upd:
  "procInv (s\<lparr>outputChan := a\<rparr>) = procInv s"
  "procInv (s\<lparr>chanClosed := b\<rparr>) = procInv s"
  "procInv (s\<lparr>stopClosed := b\<rparr>) = procInv s"
  "procInv (s\<lparr>proc.more := m\<rparr>) = procInv s"
  by (simp_all add: procInv_def)

lemma procInv_upd2:
  fixes s :: "'a sys2"
  shows "procInv (s\<lparr>received := r\<rparr>) = procInv s"
    "procInv (s\<lparr>cpc := c\<rparr>) = procInv s"
    "procInv (s\<lparr>doneClosed := b\<rparr>) = procInv s"
    "procInv (s\<lparr>interrupted := b\<rparr>) = procInv s"
    "procInv (s\<lparr>mpc2 := m\<rparr>) = procInv s"
    "procInv (s\<lparr>disk2 := f\<rparr>) = procInv s"
  by (simp_all add: procInv_def)


lemma start2_init:
  assumes "start2 trim fl lines d = Inr s0"
  shows "s0 = init2 (readURLs trim lines) (nat (ratePtr fl)) d \<and> 0 < ratePtr fl
       \<and> readURLs trim lines \<noteq> []"
  using assms
  by (auto simp: start2_def processURLs_setup_def Let_def split: if_splits)

text \<open>
  A run of main starts only on an input scanned to its end without error: every start
  that \<open>mainStart2\<close> gives is one that \<open>start2\<close> gives on the scanner's tokens.
\<close>

lemma mainStart2_started:
  "mainStart2 trim fl inp d = Inr s0
     \<longleftrightarrow> (\<exists>lines. inp = ScanEnded lines \<and> start2 trim fl lines d = Inr s0)"
  by (cases inp) simp_all

lemma inv2_init2: "0 < c \<Longrightarrow> inv2 v d (init2 us c d)"
  by (simp add: inv2_def procInv_def init2_def)









section \<open>Properties of admission\<close>

lemma filter_len_mono:
  "(\<And>x. P x \<Longrightarrow> Q x) \<Longrightarrow> length (filter P xs) \<le> length (filter Q xs)"
  by (induction xs) auto

lemma inCheckURL_holdsSlot: "inCheckURL p \<Longrightarrow> holdsSlot p"
  by (cases p) simp_all

lemma procInv_running: "procInv s \<Longrightarrow> running s \<le> sem s \<and> sem s \<le> semCap s"
  unfolding procInv_def running_def
  using filter_len_mono [of inCheckURL holdsSlot "pst s", OF inCheckURL_holdsSlot] by simp

lemma procInv_upd1:
  fixes s :: sys1
  shows "procInv (s\<lparr>liveURLs := r\<rparr>) = procInv s"
    "procInv (s\<lparr>mpc := m\<rparr>) = procInv s"
    "procInv (s\<lparr>disk := f\<rparr>) = procInv s"
  by (simp_all add: procInv_def)

lemma procInv_upd_crashed: "procInv (s\<lparr>crashed := p\<rparr>) = procInv s"
  by (simp add: procInv_def)

lemma capInv1_step:
  assumes inv: "procInv s \<and> semCap s = c \<and> urlList s = us" and st: "step1 fl w s e = Some t"
  shows "procInv t \<and> semCap t = c \<and> urlList t = us"
proof -
  from st have m: "main1Step fl w s e = Some t"
    by (simp add: step1_def split: if_splits)
  show ?thesis
  proof (cases e)
    case (P1 pe)
    with m have p: "procStep (\<lambda>i u. sent (checkURL (verbosePtr fl) (httpHead w i) u)) s pe = Some t"
      by (cases pe) simp_all
    from procInv_step [OF _ p] procStep_frame [OF p] inv show ?thesis by simp
  qed (use m inv in \<open>auto simp: procInv_upd procInv_upd1 procInv_upd_crashed
      split: if_splits list.splits sum.splits\<close>)
qed

lemma capInv2_step:
  assumes inv: "procInv s \<and> semCap s = c \<and> urlList s = us" and st: "step2 v s e = Some t"
  shows "procInv t \<and> semCap t = c \<and> urlList t = us"
proof -
  from st have m: "main2Step v s e = Some t"
    by (simp add: step2_def split: if_splits)
  show ?thesis
  proof (cases e)
    case (P2 pe)
    with m have p: "procStep (check v) s pe = Some t" by simp
    from procInv_step [OF _ p] procStep_frame [OF p] inv show ?thesis by simp
  next
    case CloseOut
    with m inv show ?thesis by (auto simp: procInv_def split: if_splits)
  qed (use m inv in \<open>auto simp: procInv_upd procInv_upd2
      split: if_splits list.splits cpc.splits prod.splits\<close>)
qed

lemma step1_unfold:
  "step1 fl w s e = (if crashed s = None \<and> \<not> exited1 (mpc s) then main1Step fl w s e else None)"
  by (simp add: step1_def)

lemma step2_unfold:
  "step2 v s e = (if crashed s = None \<and> \<not> exited2 (mpc2 s) then main2Step v s e else None)"
  by (simp add: step2_def)

lemma readURLs_example:
  "readURLs TrimSpace_ascii [''example.com'', ''https://ok.test'', []]
     = [''example.com'', ''https://ok.test'']"
  by (simp add: readURLs_def TrimSpace_ascii_def asciiSpace_def)



text \<open>
  C4, as amended. At every moment of every run, of the first program and of the
  classifying one, the goroutines inside checkURL are at most as many as the semaphore
  slots held, and these are at most the capacity of the semaphore. The capacity is the
  requests-per-second flag itself: processURLs makes the semaphore from
  \<open>requestsPerSecond\<close>, and there is no setting of its own for it.
\<close>

theorem probers_bounded_by_rate:
  "(start1 trim fl lines d = Inr s0 \<and> run (step1 fl w) s0 es = Some s \<longrightarrow>
      running s \<le> sem s \<and> sem s \<le> semCap s \<and> semCap s = nat (ratePtr fl))
   \<and> (start2 trim fl lines d = Inr t0 \<and> run (step2 (statusVariant trim fl w)) t0 es' = Some t \<longrightarrow>
      running t \<le> sem t \<and> sem t \<le> semCap t \<and> semCap t = nat (ratePtr fl))
   \<and> (processURLs_setup r = Inr (c, p) \<longrightarrow> c = nat r \<and> 0 < r)"
proof (intro conjI impI)
  assume a: "start1 trim fl lines d = Inr s0 \<and> run (step1 fl w) s0 es = Some s"
  from start1_init [of trim fl lines d s0] a
  have i0: "procInv s0 \<and> semCap s0 = nat (ratePtr fl) \<and> urlList s0 = readURLs trim lines"
    by (simp add: procInv_init1) (simp add: init1_def)
  from a have "run (step1 fl w) s0 es = Some s" by simp
  then have "procInv s \<and> semCap s = nat (ratePtr fl) \<and> urlList s = readURLs trim lines"
    using i0 by (rule run_invariant) (rule capInv1_step)
  then show "running s \<le> sem s" "sem s \<le> semCap s" "semCap s = nat (ratePtr fl)"
    using procInv_running [of s] by simp_all
next
  assume a: "start2 trim fl lines d = Inr t0 \<and> run (step2 (statusVariant trim fl w)) t0 es' = Some t"
  from start2_init [of trim fl lines d t0] a
  have "inv2 (statusVariant trim fl w) d t0" by (simp add: inv2_init2)
  then have i0: "procInv t0 \<and> semCap t0 = nat (ratePtr fl) \<and> urlList t0 = readURLs trim lines"
    using start2_init [of trim fl lines d t0] a by (simp add: inv2_def) (simp add: init2_def)
  from a have "run (step2 (statusVariant trim fl w)) t0 es' = Some t" by simp
  then have "procInv t \<and> semCap t = nat (ratePtr fl) \<and> urlList t = readURLs trim lines"
    using i0 by (rule run_invariant) (rule capInv2_step)
  then show "running t \<le> sem t" "sem t \<le> semCap t" "semCap t = nat (ratePtr fl)"
    using procInv_running [of t] by simp_all
next
  assume "processURLs_setup r = Inr (c, p)"
  then show "c = nat r" "0 < r"
    by (auto simp: processURLs_setup_def split: if_splits)
qed

theorem probers_bounded_by_rate_witness:
  "start1 TrimSpace_ascii defaultFlags [''example.com''] Map.empty
     = Inr (init1 [''example.com''] 10 Map.empty)
   \<and> (\<exists>s. run (step1 defaultFlags \<lparr>httpHead = (\<lambda>i u. Status 200), canCreate = (\<lambda>f. True)\<rparr>)
            (init1 [''example.com''] 10 Map.empty) [P1 Tick, P1 Spawn] = Some s
        \<and> running s = 1 \<and> sem s = 1 \<and> semCap s = 10)
   \<and> (start2 TrimSpace_ascii defaultFlags [''example.com'', ''https://ok.test'', []] Map.empty
        :: ending + statusResult sys2)
     = Inr (init2 [''example.com'', ''https://ok.test''] 10 Map.empty)
   \<and> (\<exists>t. run (step2 (statusVariant TrimSpace_ascii defaultFlags
                 \<lparr>httpHead = (\<lambda>i u. Status 200), canCreate = (\<lambda>f. True)\<rparr>))
            (init2 [''example.com'', ''https://ok.test''] 10 Map.empty)
            [P2 Tick, P2 Spawn, P2 Tick, P2 Spawn, P2 (HeadReturns 0)] = Some t
        \<and> running t = 2 \<and> sem t = 2 \<and> semCap t = 10)
   \<and> processURLs_setup 10 = Inr (10, 100000000)"
proof -
  let ?w = "\<lparr>httpHead = (\<lambda>i u. Status 200), canCreate = (\<lambda>f. True)\<rparr>"
  let ?s = "\<lparr>urlList = [''example.com''], semCap = 10, nxt = 1, dpc = D_Loop, sem = 1,
          wg = 1, pst = [P_Head], outputChan = [], chanClosed = False, stopClosed = False,
          crashed = None, liveURLs = [], mpc = M1_Range, disk = Map.empty\<rparr> :: sys1"
  let ?t = "\<lparr>urlList = [''example.com'', ''https://ok.test''], semCap = 10, nxt = 2,
          dpc = D_Loop, sem = 2, wg = 2,
          pst = [P_Send \<lparr>url = ''http://example.com'', statusCode = 200\<rparr>, P_Head],
          outputChan = [], chanClosed = False, stopClosed = False, crashed = None,
          received = [], cpc = C_Recv, doneClosed = False, interrupted = False,
          mpc2 = M2_Select, disk2 = Map.empty\<rparr> :: statusResult sys2"
  have st1: "start1 TrimSpace_ascii defaultFlags [''example.com''] Map.empty
     = Inr (init1 [''example.com''] 10 Map.empty)"
    by (rule start1_example)
  have st2: "(start2 TrimSpace_ascii defaultFlags [''example.com'', ''https://ok.test'', []] Map.empty
        :: ending + statusResult sys2)
     = Inr (init2 [''example.com'', ''https://ok.test''] 10 Map.empty)"
    by (simp add: start2_def readURLs_def TrimSpace_ascii_def asciiSpace_def defaultFlags_def
      processURLs_setup_def Let_def)
  have r1: "run (step1 defaultFlags ?w) (init1 [''example.com''] 10 Map.empty) [P1 Tick, P1 Spawn]
      = Some ?s"
    by (simp add: step1_unfold init1_def)
  have r2: "run (step2 (statusVariant TrimSpace_ascii defaultFlags ?w))
      (init2 [''example.com'', ''https://ok.test''] 10 Map.empty)
      [P2 Tick, P2 Spawn, P2 Tick, P2 Spawn, P2 (HeadReturns 0)] = Some ?t"
    by (simp add: step2_unfold init2_def statusVariant_def checkURL_status_def addScheme_def
        HasPrefix_def Let_def)
  have ru: "running ?s = 1" "running ?t = 2" by (simp_all add: running_def)
  note T = probers_bounded_by_rate [of TrimSpace_ascii defaultFlags "[''example.com'']" Map.empty
      "init1 [''example.com''] 10 Map.empty" ?w "[P1 Tick, P1 Spawn]" ?s]
  from T st1 r1 have c1: "semCap ?s = nat (ratePtr defaultFlags)" by blast
  have "processURLs_setup 10 = Inr (10, 100000000)"
    by (simp add: processURLs_setup_def)
  moreover have "\<exists>s. run (step1 defaultFlags ?w) (init1 [''example.com''] 10 Map.empty)
        [P1 Tick, P1 Spawn] = Some s \<and> running s = 1 \<and> sem s = 1 \<and> semCap s = 10"
    using r1 ru(1) c1 by (intro exI [of _ ?s]) simp
  moreover have "\<exists>t. run (step2 (statusVariant TrimSpace_ascii defaultFlags ?w))
        (init2 [''example.com'', ''https://ok.test''] 10 Map.empty)
        [P2 Tick, P2 Spawn, P2 Tick, P2 Spawn, P2 (HeadReturns 0)] = Some t
        \<and> running t = 2 \<and> sem t = 2 \<and> semCap t = 10"
    using r2 ru(2) by (intro exI [of _ ?t]) simp
  ultimately show ?thesis using st1 st2 by blast
qed

text \<open>
  C4 as stated fails in its second half. The same two endpoints with the rate 1 and with
  the rate 2: at rate 1 the second goroutine cannot be started while the first is
  running (the events end in a step that cannot be taken), at rate 2 both run at once.
  How many run at once was set by the rate, which is all that differs.
\<close>

theorem concurrency_follows_rate:
  "start1 TrimSpace_ascii (defaultFlags\<lparr>ratePtr := 1\<rparr>) [''a.test'', ''b.test''] Map.empty
     = Inr (init1 [''a.test'', ''b.test''] 1 Map.empty)
   \<and> start1 TrimSpace_ascii (defaultFlags\<lparr>ratePtr := 2\<rparr>) [''a.test'', ''b.test''] Map.empty
     = Inr (init1 [''a.test'', ''b.test''] 2 Map.empty)
   \<and> run (step1 (defaultFlags\<lparr>ratePtr := 1\<rparr>)
            \<lparr>httpHead = (\<lambda>i u. Status 200), canCreate = (\<lambda>f. True)\<rparr>)
         (init1 [''a.test'', ''b.test''] 1 Map.empty) [P1 Tick, P1 Spawn, P1 Tick, P1 Spawn]
       = None
   \<and> map_option running
        (run (step1 (defaultFlags\<lparr>ratePtr := 2\<rparr>)
            \<lparr>httpHead = (\<lambda>i u. Status 200), canCreate = (\<lambda>f. True)\<rparr>)
         (init1 [''a.test'', ''b.test''] 2 Map.empty) [P1 Tick, P1 Spawn, P1 Tick, P1 Spawn])
       = Some 2"
proof (intro conjI)
  show "start1 TrimSpace_ascii (defaultFlags\<lparr>ratePtr := 1\<rparr>) [''a.test'', ''b.test''] Map.empty
     = Inr (init1 [''a.test'', ''b.test''] 1 Map.empty)"
    by (simp add: start1_def readURLs_def TrimSpace_ascii_def asciiSpace_def defaultFlags_def
      processURLs_setup_def Let_def)
  show "start1 TrimSpace_ascii (defaultFlags\<lparr>ratePtr := 2\<rparr>) [''a.test'', ''b.test''] Map.empty
     = Inr (init1 [''a.test'', ''b.test''] 2 Map.empty)"
    by (simp add: start1_def readURLs_def TrimSpace_ascii_def asciiSpace_def defaultFlags_def
      processURLs_setup_def Let_def)
  show "run (step1 (defaultFlags\<lparr>ratePtr := 1\<rparr>)
            \<lparr>httpHead = (\<lambda>i u. Status 200), canCreate = (\<lambda>f. True)\<rparr>)
         (init1 [''a.test'', ''b.test''] 1 Map.empty) [P1 Tick, P1 Spawn, P1 Tick, P1 Spawn]
       = None"
    by (simp add: step1_unfold init1_def)
  show "map_option running
        (run (step1 (defaultFlags\<lparr>ratePtr := 2\<rparr>)
            \<lparr>httpHead = (\<lambda>i u. Status 200), canCreate = (\<lambda>f. True)\<rparr>)
         (init1 [''a.test'', ''b.test''] 2 Map.empty) [P1 Tick, P1 Spawn, P1 Tick, P1 Spawn])
       = Some 2"
    by (simp add: step1_unfold init1_def running_def)
qed

text \<open>
  C5, as amended, for the program the statement is read from (liveurls.go lines 1 to
  152). The rate flag is an integer with default 10 and is not validated. When the
  input has been scanned to its end without error and holds at least one endpoint,
  a rate of zero or below is not reported as a configuration error: processURLs panics
  in its first statements (a negative channel size, or the division by zero that
  computes the ticker's period) and the process ends by that panic, before any probe is
  started and with nothing written; with a rate from 1 to 1000000000 the run starts, the
  semaphore's capacity being the rate. What ends the process with status 1, whatever
  the rate, is an empty list of endpoints, an input file that cannot be opened, or an
  input the scanner fails on.
\<close>

theorem rate_is_not_validated:
  "ratePtr defaultFlags = 10
   \<and> (ratePtr fl \<le> 0 \<and> readURLs trim lines \<noteq> [] \<longrightarrow>
        mainStart1 trim fl (ScanEnded lines) d
          = Inl (Panicked (if ratePtr fl < 0 then MakeChanSizeOutOfRange
                           else IntegerDivideByZero)))
   \<and> (0 < ratePtr fl \<and> ratePtr fl \<le> 1000000000 \<and> readURLs trim lines \<noteq> [] \<longrightarrow>
        mainStart1 trim fl (ScanEnded lines) d
          = Inr (init1 (readURLs trim lines) (nat (ratePtr fl)) d))
   \<and> (readURLs trim lines = [] \<longrightarrow> mainStart1 trim fl (ScanEnded lines) d = Inl (Exited 1))
   \<and> mainStart1 trim fl (ScanFailed lines) d = Inl (Exited 1)
   \<and> mainStart1 trim fl OpenFailed d = Inl (Exited 1)"
proof (intro conjI impI)
  show "ratePtr defaultFlags = 10" by (simp add: defaultFlags_def)
next
  assume a: "ratePtr fl \<le> 0 \<and> readURLs trim lines \<noteq> []"
  then show "mainStart1 trim fl (ScanEnded lines) d
          = Inl (Panicked (if ratePtr fl < 0 then MakeChanSizeOutOfRange
                           else IntegerDivideByZero))"
    by (simp add: start1_def processURLs_setup_def Let_def)
next
  assume a: "0 < ratePtr fl \<and> ratePtr fl \<le> 1000000000 \<and> readURLs trim lines \<noteq> []"
  then have pos: "\<not> 1000000000 div ratePtr fl \<le> 0"
    by (simp add: pos_imp_zdiv_pos_iff not_le)
  from a pos show "mainStart1 trim fl (ScanEnded lines) d
          = Inr (init1 (readURLs trim lines) (nat (ratePtr fl)) d)"
    by (simp add: start1_def processURLs_setup_def Let_def)
next
  assume a: "readURLs trim lines = []"
  then show "mainStart1 trim fl (ScanEnded lines) d = Inl (Exited 1)"
    by (simp add: start1_def Let_def)
next
  show "mainStart1 trim fl (ScanFailed lines) d = Inl (Exited 1)" by simp
next
  show "mainStart1 trim fl OpenFailed d = Inl (Exited 1)" by simp
qed

theorem rate_is_not_validated_witness:
  "mainStart1 TrimSpace_ascii (defaultFlags\<lparr>ratePtr := - 3\<rparr>)
       (ScanEnded [''example.com'', ''https://ok.test'', []]) Map.empty
     = Inl (Panicked MakeChanSizeOutOfRange)
   \<and> mainStart1 TrimSpace_ascii (defaultFlags\<lparr>ratePtr := 0\<rparr>)
       (ScanEnded [''example.com'', ''https://ok.test'', []]) Map.empty
     = Inl (Panicked IntegerDivideByZero)
   \<and> mainStart1 TrimSpace_ascii defaultFlags
       (ScanEnded [''example.com'', ''https://ok.test'', []]) Map.empty
     = Inr (init1 [''example.com'', ''https://ok.test''] 10 Map.empty)
   \<and> mainStart1 TrimSpace_ascii (defaultFlags\<lparr>ratePtr := 0\<rparr>) (ScanEnded ['' '', []]) Map.empty
     = Inl (Exited 1)
   \<and> mainStart1 TrimSpace_ascii (defaultFlags\<lparr>ratePtr := 0\<rparr>)
       (ScanFailed [''example.com'', ''https://ok.test'', []]) Map.empty
     = Inl (Exited 1)
   \<and> mainStart1 TrimSpace_ascii (defaultFlags\<lparr>ratePtr := 0\<rparr>) OpenFailed Map.empty
     = Inl (Exited 1)"
proof -
  have e: "readURLs TrimSpace_ascii ['' '', []] = []"
    by (simp add: readURLs_def TrimSpace_ascii_def asciiSpace_def)
  have a: "mainStart1 TrimSpace_ascii (defaultFlags\<lparr>ratePtr := - 3\<rparr>)
       (ScanEnded [''example.com'', ''https://ok.test'', []]) Map.empty
     = Inl (Panicked MakeChanSizeOutOfRange)"
    using rate_is_not_validated [of "defaultFlags\<lparr>ratePtr := - 3\<rparr>" TrimSpace_ascii
        "[''example.com'', ''https://ok.test'', []]" Map.empty]
    by (simp add: readURLs_example)
  have b: "mainStart1 TrimSpace_ascii (defaultFlags\<lparr>ratePtr := 0\<rparr>)
       (ScanEnded [''example.com'', ''https://ok.test'', []]) Map.empty
     = Inl (Panicked IntegerDivideByZero)"
    using rate_is_not_validated [of "defaultFlags\<lparr>ratePtr := 0\<rparr>" TrimSpace_ascii
        "[''example.com'', ''https://ok.test'', []]" Map.empty]
    by (simp add: readURLs_example)
  have c: "mainStart1 TrimSpace_ascii defaultFlags
       (ScanEnded [''example.com'', ''https://ok.test'', []]) Map.empty
     = Inr (init1 [''example.com'', ''https://ok.test''] 10 Map.empty)"
    using rate_is_not_validated [of defaultFlags TrimSpace_ascii
        "[''example.com'', ''https://ok.test'', []]" Map.empty]
    by (simp add: readURLs_example)
  have d: "mainStart1 TrimSpace_ascii (defaultFlags\<lparr>ratePtr := 0\<rparr>) (ScanEnded ['' '', []]) Map.empty
     = Inl (Exited 1)"
    using rate_is_not_validated [of "defaultFlags\<lparr>ratePtr := 0\<rparr>" TrimSpace_ascii
        "['' '', []]" Map.empty]
    by (simp add: e)
  have f: "mainStart1 TrimSpace_ascii (defaultFlags\<lparr>ratePtr := 0\<rparr>)
       (ScanFailed [''example.com'', ''https://ok.test'', []]) Map.empty
     = Inl (Exited 1)"
    using rate_is_not_validated [of "defaultFlags\<lparr>ratePtr := 0\<rparr>" TrimSpace_ascii
        "[''example.com'', ''https://ok.test'', []]" Map.empty]
    by (simp del: mainStart1.simps)
  have g: "mainStart1 TrimSpace_ascii (defaultFlags\<lparr>ratePtr := 0\<rparr>) OpenFailed Map.empty
     = Inl (Exited 1)"
    using rate_is_not_validated [of "defaultFlags\<lparr>ratePtr := 0\<rparr>" TrimSpace_ascii
        "[]" Map.empty]
    by (simp del: mainStart1.simps)
  show ?thesis by (intro conjI a b c d f g)
qed

text \<open>
  C5 as stated fails: with the rate 0 and one endpoint, on an input scanned to its end
  without error, the process does not end with the status 1 of a reported error but by
  the panic of an integer division by zero; with the rate -1, by the panic of a channel
  made with a negative size.
\<close>

theorem zero_rate_is_a_panic:
  "mainStart1 TrimSpace_ascii (defaultFlags\<lparr>ratePtr := 0\<rparr>) (ScanEnded [''example.com'']) Map.empty
     = Inl (Panicked IntegerDivideByZero)
   \<and> mainStart1 TrimSpace_ascii (defaultFlags\<lparr>ratePtr := 0\<rparr>) (ScanEnded [''example.com'']) Map.empty
     \<noteq> Inl (Exited 1)
   \<and> mainStart1 TrimSpace_ascii (defaultFlags\<lparr>ratePtr := - 1\<rparr>) (ScanEnded [''example.com'']) Map.empty
     = Inl (Panicked MakeChanSizeOutOfRange)
   \<and> processURLs_setup 0 = Inl IntegerDivideByZero"
  by (simp add: start1_def readURLs_def TrimSpace_ascii_def asciiSpace_def defaultFlags_def
      processURLs_setup_def Let_def)



section \<open>The second receiver\<close>

text \<open>
  The program with a stop channel (liveurls.go lines 153 to 338) has two goroutines
  receiving from \<open>outputChan\<close>: the collector, and the one whose loop waits for the
  channel to be closed (lines 317 to 319), which throws away what it receives. In this
  run, with no signal, the one endpoint answers 200, its URL is received by the second
  of them, and main ends with status 0 and an empty file.
\<close>

lemma extra_receiver_discards_result:
  "run (step2 (liveVariant defaultFlags \<lparr>httpHead = (\<lambda>i u. Status 200), canCreate = (\<lambda>f. True)\<rparr>))
       (init2 [''example.com''] 10 Map.empty)
       [P2 Tick, P2 Spawn, P2 LoopEnd, P2 (HeadReturns 0), P2 (Send 0), DrainRecv,
        P2 (WgDone 0), P2 (Release 0), P2 WaitDone, CloseOut, CollectRecv, DrainRecv,
        DoneSeen, Save []]
     = Some \<lparr>urlList = [''example.com''], semCap = 10, nxt = 1, dpc = D_Closed, sem = 0,
              wg = 0, pst = [P_Exit], outputChan = [], chanClosed = True, stopClosed = False,
              crashed = None, received = [], cpc = C_Done, doneClosed = True,
              interrupted = False, mpc2 = M2_Exited 0,
              disk2 = [''live_urls.txt'' \<mapsto> []]\<rparr>"
  by (simp add: step2_unfold init2_def liveVariant_def defaultFlags_def
      saveURLs_def checkURL_def addScheme_def HasPrefix_def Let_def)

end
